theory Spec2Isabelle
  imports Main "HOL-Library.Word" "HOL-Library.Sublist"
begin

section \<open>Go library functions used by the server command\<close>

text \<open>
  Go strings are byte sequences; \<open>string\<close> (a list of 8-bit characters) is the same
  thing, so \<open>len\<close> is \<open>length\<close> and the slice \<open>s[n:]\<close> is \<open>drop n s\<close>.
\<close>

subsection \<open>Package strings\<close>

text \<open>\<open>strings.HasPrefix(s, prefix)\<close>: \<open>len(s) >= len(prefix) && s[:len(prefix)] == prefix\<close>.\<close>

definition HasPrefix :: "string \<Rightarrow> string \<Rightarrow> bool" where
  "HasPrefix s p = (length p \<le> length s \<and> take (length p) s = p)"

text \<open>\<open>strings.Contains(s, substr)\<close>: \<open>substr\<close> occurs at some position of \<open>s\<close>.\<close>

fun Contains :: "string \<Rightarrow> string \<Rightarrow> bool" where
  "Contains [] substr = (substr = [])"
| "Contains (c # s) substr = (HasPrefix (c # s) substr \<or> Contains s substr)"

text \<open>\<open>strings.TrimPrefix(s, prefix)\<close>.\<close>

definition TrimPrefix :: "string \<Rightarrow> string \<Rightarrow> string" where
  "TrimPrefix s p = (if HasPrefix s p then drop (length p) s else s)"

subsection \<open>Errors\<close>

text \<open>
  A Go \<open>error\<close> is a value with an \<open>Error()\<close> message; \<open>nil\<close> is \<open>None\<close> of
  \<open>error option\<close>. \<open>errors.New\<close> and \<open>fmt.Errorf\<close> build an error from the
  (formatted) message.
\<close>

datatype error = Error string

fun message :: "error \<Rightarrow> string" where
  "message (Error msg) = msg"

definition errors_New :: "string \<Rightarrow> error" where
  "errors_New msg = Error msg"

text \<open>The apostrophe and the newline, which a string literal cannot hold.\<close>

definition apostrophe :: char where
  "apostrophe = CHR 0x27"

definition newline :: char where
  "newline = CHR 0x0A"

subsection \<open>Package strconv\<close>

text \<open>
  \<open>strconv.Atoi(s)\<close> on a 64-bit platform: an optional sign, then one or more decimal
  digits, the value within the range of \<open>int\<close>; anything else is an error (\<open>None\<close>).
\<close>

definition digit_val :: "char \<Rightarrow> nat option" where
  "digit_val ch =
     (if of_char ch < (48::nat) \<or> (57::nat) < of_char ch then None
      else Some (of_char ch - 48))"

fun parse_digits :: "nat \<Rightarrow> string \<Rightarrow> nat option" where
  "parse_digits n [] = Some n"
| "parse_digits n (ch # s) =
     (case digit_val ch of
        None \<Rightarrow> None
      | Some d \<Rightarrow> parse_digits (n * 10 + d) s)"

definition Atoi :: "string \<Rightarrow> int option" where
  "Atoi s =
     (case s of
        [] \<Rightarrow> None
      | ch # rest \<Rightarrow>
          (let neg = (ch = CHR ''-'');
               ds = (if ch = CHR ''-'' \<or> ch = CHR ''+'' then rest else s)
           in if ds = [] then None
              else (case parse_digits 0 ds of
                      None \<Rightarrow> None
                    | Some n \<Rightarrow>
                        (let v = (if neg then - int n else int n)
                         in if - (2 ^ 63) \<le> v \<and> v < 2 ^ 63 then Some v else None))))"

section \<open>Package shardwidth\<close>

text \<open>\<open>const Exponent = 24\<close>, the file built when no \<open>shardwidthNN\<close> tag is given.\<close>

definition Exponent :: nat where
  "Exponent = 24"

text \<open>
  Modelled from the spec: the shard mapper is not among the sources. The spec gives
  \<open>shardOf(columnAddress) -> shardIndex\<close> with \<open>shardIndex = columnAddress >> E\<close>
  on non-negative addresses; an address is an unsigned 64-bit integer.
\<close>

definition shardOf :: "64 word \<Rightarrow> 64 word" where
  "shardOf columnAddress = drop_bit Exponent columnAddress"

section \<open>The data of package pilosa that the server command touches\<close>

text \<open>
  Package pilosa itself is not among the sources; the types below carry the fields that
  the server command reads and writes, under their Go names. A record field is written
  qualified (\<open>Config.Host\<close>, \<open>Server.Host\<close>, \<open>Node.Host\<close>) where several
  structs share a field name.
\<close>

text \<open>\<open>pilosa.Node\<close>: the command sets \<open>Host\<close> only.\<close>

record Node =
  Host :: string

text \<open>
  Modelled from the spec: the broadcasters are not among the sources. The
  \<open>Broadcaster\<close> interface holds \<open>nil\<close> or one of the three variants HTTP, Gossip
  and Nop. \<open>NewHTTPBroadcaster(server)\<close> and \<open>NewGossipBroadcaster(server)\<close> keep
  a pointer to the server they are built for, which is the command's one server.
\<close>

datatype Broadcaster = NilBroadcaster | HTTPBroadcaster | GossipBroadcaster | NopBroadcaster

definition NewHTTPBroadcaster :: Broadcaster where
  "NewHTTPBroadcaster = HTTPBroadcaster"

definition NewGossipBroadcaster :: Broadcaster where
  "NewGossipBroadcaster = GossipBroadcaster"

text \<open>
  Modelled from the spec: the node sets are not among the sources. The \<open>NodeSet\<close>
  interface holds \<open>nil\<close> or one of the three variants. An HTTP node set holds
  the nodes it was joined to (\<open>join(initialNodes)\<close>, \<open>nodes()\<close> returns the
  registered set); a gossip node set is built from a name, a bind host, a port and a seed
  and has, for the Gossip variant only, \<open>attachBroadcaster(b)\<close>; a static node set has
  no state of its own.
\<close>

datatype NodeSet =
    NilNodeSet
  | HTTPNodeSet "Node list"
  | GossipNodeSet string string int string "Broadcaster option"
  | StaticNodeSet

definition NewHTTPNodeSet :: NodeSet where
  "NewHTTPNodeSet = HTTPNodeSet []"

definition NewGossipNodeSet :: "string \<Rightarrow> string \<Rightarrow> int \<Rightarrow> string \<Rightarrow> NodeSet" where
  "NewGossipNodeSet name gossipHost gossipPort gossipSeed =
     GossipNodeSet name gossipHost gossipPort gossipSeed None"

definition NewStaticNodeSet :: NodeSet where
  "NewStaticNodeSet = StaticNodeSet"

text \<open>A value that panics: the argument of \<open>panic\<close>, or a failed type assertion.\<close>

datatype panic = AtoiPanic string | TypeAssertionPanic

text \<open>
  Modelled from the spec: \<open>Join\<close> is not among the sources; it stores the nodes.
  The call is \<open>ns.(*pilosa.HTTPNodeSet).Join(nodes)\<close>: the type assertion panics on
  any other variant (and on \<open>nil\<close>); the value \<open>Join\<close> returns is dropped by the
  caller.
\<close>

fun HTTPNodeSet_Join :: "NodeSet \<Rightarrow> Node list \<Rightarrow> panic + NodeSet" where
  "HTTPNodeSet_Join (HTTPNodeSet old) nodes = Inr (HTTPNodeSet nodes)"
| "HTTPNodeSet_Join ns nodes = Inl TypeAssertionPanic"

text \<open>
  Modelled from the spec: \<open>AttachBroadcaster\<close> is not among the sources; it records
  the broadcaster in the node set. The call is
  \<open>ns.(*pilosa.GossipNodeSet).AttachBroadcaster(b.(*pilosa.GossipBroadcaster))\<close>:
  the receiver's assertion comes first, then the argument's; either panics on another
  variant (and on \<open>nil\<close>).
\<close>

fun GossipNodeSet_AttachBroadcaster :: "NodeSet \<Rightarrow> Broadcaster \<Rightarrow> panic + NodeSet" where
  "GossipNodeSet_AttachBroadcaster (GossipNodeSet name gossipHost gossipPort gossipSeed old) b =
     (if b = GossipBroadcaster
      then Inr (GossipNodeSet name gossipHost gossipPort gossipSeed (Some b))
      else Inl TypeAssertionPanic)"
| "GossipNodeSet_AttachBroadcaster ns b = Inl TypeAssertionPanic"

text \<open>\<open>pilosa.Config\<close> and its nested structs.\<close>

record GossipConfig =
  Port :: int
  Seed :: string

record ClusterConfig =
  ReplicaN :: int
  Nodes :: "string list"
  BroadcasterType :: string
  Gossip :: GossipConfig

record AntiEntropyConfig =
  Interval :: int

record Config =
  DataDir :: string
  Host :: string
  LogPath :: string
  Cluster :: ClusterConfig
  AntiEntropy :: AntiEntropyConfig

text \<open>\<open>pilosa.Cluster\<close>.\<close>

record Cluster =
  ReplicaN :: int
  Nodes :: "Node list"
  NodeSet :: NodeSet

text \<open>
  Modelled from the spec: \<open>pilosa.NewCluster\<close> is not among the sources. A cluster is
  an ordered sequence of nodes, a positive replica factor and a node set; a new one has no
  node and no node set yet.
\<close>

definition NewCluster :: Cluster where
  "NewCluster = \<lparr>Cluster.ReplicaN = 1, Cluster.Nodes = [], NodeSet = NilNodeSet\<rparr>"

text \<open>
  An \<open>io.Writer\<close>: no writer, the command's standard error, another stream, or the log
  file that \<open>os.OpenFile\<close> opened at a path.
\<close>

datatype Writer = NilWriter | CmdStderr | OtherWriter nat | OpenedFile string

datatype StatsClient = NopStatsClient | ExpvarStatsClient

definition NewExpvarStatsClient :: StatsClient where
  "NewExpvarStatsClient = ExpvarStatsClient"

record Index =
  Path :: string
  Stats :: StatsClient

text \<open>\<open>pilosa.Server\<close>.\<close>

record Server =
  LogOutput :: Writer
  Index :: Index
  Host :: string
  Broadcaster :: Broadcaster
  Cluster :: Cluster
  AntiEntropyInterval :: int

text \<open>
  What the command takes from outside itself: the process environment, the file system,
  package net, and the constants and the \<open>Open\<close> method of package pilosa, whose values
  are not among the sources.
\<close>

record Env =
  Getenv_HOME :: string
  filepath_Separator :: char
  filepath_Join :: "string \<Rightarrow> string \<Rightarrow> string"
  os_OpenFile :: "string \<Rightarrow> error option"
  net_SplitHostPort :: "string \<Rightarrow> string option"
  DefaultGossipPort :: string
  DefaultHost :: string
  Server_Open :: "Server \<Rightarrow> error option \<times> Server"

section \<open>The server command\<close>

text \<open>
  \<open>Command\<close>: the server, the configuration, the standard error writer of the embedded
  \<open>CmdIO\<close>, and the \<open>Started\<close> channel (\<open>True\<close> once closed). \<open>Output\<close>
  records, in order, what \<open>fmt.Fprintf\<close> wrote and to which writer. A command is as
  \<open>NewCommand\<close> builds it: its pointers are not \<open>nil\<close> and it is run once.
\<close>

record Command =
  Server :: Server
  Config :: Config
  Stderr :: Writer
  Output :: "(Writer \<times> string) list"
  Started :: bool

definition Fprintf :: "Writer \<Rightarrow> string \<Rightarrow> Command \<Rightarrow> Command" where
  "Fprintf w text m = m\<lparr>Output := Output m @ [(w, text)]\<rparr>"

text \<open>PilosaBroadcaster: the named result starts as \<open>nil\<close>; the switch has no default.\<close>

definition PilosaBroadcaster :: "Config \<Rightarrow> Server \<Rightarrow> Broadcaster" where
  "PilosaBroadcaster c server =
     (let broadcaster = NilBroadcaster;
          ty = BroadcasterType (Config.Cluster c)
      in if ty = ''http'' then NewHTTPBroadcaster
         else if ty = ''gossip'' then NewGossipBroadcaster
         else if ty = ''static'' then NopBroadcaster
         else broadcaster)"

text \<open>The loop of PilosaCluster that appends one node per configured hostport.\<close>

fun appendNodes :: "Node list \<Rightarrow> string list \<Rightarrow> Node list" where
  "appendNodes nodes [] = nodes"
| "appendNodes nodes (hostport # rest) =
     appendNodes (nodes @ [\<lparr>Node.Host = hostport\<rparr>]) rest"

text \<open>PilosaCluster; \<open>Inl\<close> is the panic on a default gossip port that does not parse.\<close>

definition PilosaCluster :: "Env \<Rightarrow> Config \<Rightarrow> panic + Cluster" where
  "PilosaCluster e c =
     (let cluster = NewCluster;
          cluster = cluster\<lparr>Cluster.ReplicaN := ClusterConfig.ReplicaN (Config.Cluster c)\<rparr>;
          cluster = cluster\<lparr>Cluster.Nodes :=
                      appendNodes (Cluster.Nodes cluster) (ClusterConfig.Nodes (Config.Cluster c))\<rparr>;
          ty = BroadcasterType (Config.Cluster c)
      in if ty = ''http'' then
           (case HTTPNodeSet_Join NewHTTPNodeSet (Cluster.Nodes cluster) of
              Inl p \<Rightarrow> Inl p
            | Inr ns \<Rightarrow> Inr (cluster\<lparr>NodeSet := ns\<rparr>))
         else if ty = ''gossip'' then
           (case Atoi (DefaultGossipPort e) of
              None \<Rightarrow> Inl (AtoiPanic (DefaultGossipPort e))
            | Some gport \<Rightarrow>
                (let gossipPort = gport;
                     gossipSeed = DefaultHost e;
                     gossipPort = (if Port (Gossip (Config.Cluster c)) \<noteq> 0
                                   then Port (Gossip (Config.Cluster c)) else gossipPort);
                     gossipSeed = (if Seed (Gossip (Config.Cluster c)) \<noteq> []
                                   then Seed (Gossip (Config.Cluster c)) else gossipSeed);
                     gossipHost = (case net_SplitHostPort e (Config.Host c) of
                                     Some h \<Rightarrow> h
                                   | None \<Rightarrow> Config.Host c)
                 in Inr (cluster\<lparr>NodeSet :=
                           NewGossipNodeSet (Config.Host c) gossipHost gossipPort gossipSeed\<rparr>)))
         else if ty = ''static'' then Inr (cluster\<lparr>NodeSet := NewStaticNodeSet\<rparr>)
         else Inr (cluster\<lparr>NodeSet := NewStaticNodeSet\<rparr>))"

text \<open>AssociateBroadcaster: only the gossip case does anything.\<close>

definition AssociateBroadcaster :: "Server \<Rightarrow> Config \<Rightarrow> panic + Server" where
  "AssociateBroadcaster s c =
     (let ty = BroadcasterType (Config.Cluster c)
      in if ty = ''http'' then Inr s
         else if ty = ''gossip'' then
           (case GossipNodeSet_AttachBroadcaster (NodeSet (Server.Cluster s)) (Broadcaster s) of
              Inl p \<Rightarrow> Inl p
            | Inr ns \<Rightarrow> Inr (s\<lparr>Server.Cluster := (Server.Cluster s)\<lparr>NodeSet := ns\<rparr>\<rparr>))
         else if ty = ''static'' then Inr s
         else Inr s)"

text \<open>
  normalizeHost: the Go function returns the pair \<open>(host, error)\<close>; on the error path
  the string is \<open>""\<close>.
\<close>

definition normalizeHost :: "string \<Rightarrow> string \<times> error option" where
  "normalizeHost host =
     (if \<not> Contains host '':'' then (host @ '':'', None)
      else if Contains host ''://'' then
        (if HasPrefix host ''http://'' then (drop 7 host, None)
         else ([], Some (Error (''invalid scheme or host: '' @ [apostrophe] @ host @ [apostrophe]
                 @ ''. use the format [http://]<host>:<port>''))))
      else (host, None))"

text \<open>How a call ends: it returns its \<open>error\<close> result, or it panics.\<close>

datatype outcome = Returns "error option" | Panics panic

text \<open>
  Command.Run, block by block in the order of the source. Each block takes the command
  as the blocks before have left it. The deferred \<open>close(m.Started)\<close> runs however the
  function ends, so the command is returned with every outcome.
\<close>

text \<open>
  The data directory: a leading \<open>~\<close> and separator is replaced by \<open>$HOME\<close>;
  \<open>Inl\<close> is the early \<open>return\<close> when \<open>HOME\<close> is empty.
\<close>

definition resolveDataDir :: "Env \<Rightarrow> Command \<Rightarrow> error + Command" where
  "resolveDataDir e m =
     (let prefix = ''~'' @ [filepath_Separator e]
      in if HasPrefix (DataDir (Config m)) prefix then
           (let HomeDir = Getenv_HOME e
            in if HomeDir = [] then
                 Inl (errors_New ''data directory not specified and no home dir available'')
               else Inr (m\<lparr>Config := (Config m)\<lparr>DataDir :=
                      filepath_Join e HomeDir (TrimPrefix (DataDir (Config m)) prefix)\<rparr>\<rparr>))
         else Inr m)"

text \<open>
  \<open>// Setup logging output.\<close> \<open>Inl\<close> is the early \<open>return err\<close> with the
  error of \<open>os.OpenFile\<close>.
\<close>

definition setupLogging :: "Env \<Rightarrow> Command \<Rightarrow> error + Command" where
  "setupLogging e m =
     (if LogPath (Config m) = [] then
        Inr (m\<lparr>Server := (Server m)\<lparr>LogOutput := Stderr m\<rparr>\<rparr>)
      else (case os_OpenFile e (LogPath (Config m)) of
              Some err \<Rightarrow> Inl err
            | None \<Rightarrow>
                Inr (m\<lparr>Server := (Server m)\<lparr>LogOutput := OpenedFile (LogPath (Config m))\<rparr>\<rparr>)))"

text \<open>\<open>// Configure index.\<close>\<close>

definition configureIndex :: "Command \<Rightarrow> Command" where
  "configureIndex m =
     (let m = Fprintf (Stderr m) (''Using data from: '' @ DataDir (Config m) @ [newline]) m;
          m = m\<lparr>Server := (Server m)\<lparr>Index := (Index (Server m))\<lparr>Path := DataDir (Config m)\<rparr>\<rparr>\<rparr>;
          m = m\<lparr>Server := (Server m)\<lparr>Index := (Index (Server m))\<lparr>Stats := NewExpvarStatsClient\<rparr>\<rparr>\<rparr>
      in m)"

text \<open>
  \<open>// Build cluster from config file.\<close>, \<open>// Associate objects to the Broadcaster
  based on config.\<close> and \<open>// Set configuration options.\<close> The first component is
  \<open>Some\<close> when the function ends here (the \<open>return err\<close> after normalizeHost, or a
  panic) and \<open>None\<close> when control goes on. The assignment
  \<open>m.Server.Host, err = normalizeHost(...)\<close> stores the host before \<open>err\<close> is
  looked at.
\<close>

definition buildCluster :: "Env \<Rightarrow> Command \<Rightarrow> outcome option \<times> Command" where
  "buildCluster e m =
     (let (host, err) = normalizeHost (Config.Host (Config m));
          m = m\<lparr>Server := (Server m)\<lparr>Server.Host := host\<rparr>\<rparr>
      in case err of
           Some er \<Rightarrow> (Some (Returns (Some er)), m)
         | None \<Rightarrow>
             (let m = m\<lparr>Server := (Server m)\<lparr>Broadcaster :=
                          PilosaBroadcaster (Config m) (Server m)\<rparr>\<rparr>
              in case PilosaCluster e (Config m) of
                   Inl p \<Rightarrow> (Some (Panics p), m)
                 | Inr cluster \<Rightarrow>
                     (let m = m\<lparr>Server := (Server m)\<lparr>Server.Cluster := cluster\<rparr>\<rparr>
                      in case AssociateBroadcaster (Server m) (Config m) of
                           Inl p \<Rightarrow> (Some (Panics p), m)
                         | Inr s \<Rightarrow>
                             (let m = m\<lparr>Server := s\<rparr>;
                                  m = m\<lparr>Server := (Server m)\<lparr>AntiEntropyInterval :=
                                            Interval (AntiEntropy (Config m))\<rparr>\<rparr>
                              in (None, m)))))"

text \<open>\<open>// Initialize server.\<close> \<open>m.Server.Open()\<close> works on the server in place.\<close>

definition initializeServer :: "Env \<Rightarrow> Command \<Rightarrow> outcome \<times> Command" where
  "initializeServer e m =
     (let (err, s) = Server_Open e (Server m);
          m = m\<lparr>Server := s\<rparr>
      in case err of
           Some er \<Rightarrow> (Returns (Some (Error (''server.Open: '' @ message er))), m)
         | None \<Rightarrow>
             (let m = Fprintf (Stderr m)
                        (''Listening as http://'' @ Server.Host (Server m) @ [newline]) m
              in (Returns None, m)))"

definition Run :: "Env \<Rightarrow> Command \<Rightarrow> outcome \<times> Command" where
  "Run e m =
     (case (case resolveDataDir e m of
              Inl err \<Rightarrow> (Returns (Some err), m)
            | Inr m \<Rightarrow>
                (case setupLogging e m of
                   Inl err \<Rightarrow> (Returns (Some err), m)
                 | Inr m \<Rightarrow>
                     (case buildCluster e (configureIndex m) of
                        (Some r, m) \<Rightarrow> (r, m)
                      | (None, m) \<Rightarrow> initializeServer e m))) of
        (r, m) \<Rightarrow> (r, m\<lparr>Started := True\<rparr>))"

section \<open>The entry point\<close>

text \<open>
  \<open>main\<close>, from \<open>rootCmd.Execute()\<close> on: the argument is the error that
  \<open>Execute\<close> returned (package cmd is not among the sources), the result is what
  \<open>fmt.Println\<close> wrote to standard output and the exit status of the process. The
  two goroutines started before (the profiling listener and the periodic
  \<open>FreeOSMemory\<close>) take no part in either.
\<close>

definition main :: "error option \<Rightarrow> string list \<times> int" where
  "main execute =
     (case execute of
        Some err \<Rightarrow> ([message err @ [newline]], 1)
      | None \<Rightarrow> ([], 0))"

section \<open>Concrete inputs\<close>

text \<open>
  A three-node cluster with replica factor 2, with the broadcaster type left open, on a
  Unix-like system whose one unwritable log file is \<open>/forbidden/pilosa.log\<close> and on
  which port 1 cannot be listened on.
\<close>

definition example_config :: "string \<Rightarrow> Config" where
  "example_config ty =
     \<lparr>DataDir = ''/var/pilosa'',
      Config.Host = ''localhost:10101'',
      LogPath = [],
      Config.Cluster =
        \<lparr>ClusterConfig.ReplicaN = 2,
         ClusterConfig.Nodes = [''a:10101'', ''b:10101'', ''c:10101''],
         BroadcasterType = ty,
         Gossip = \<lparr>Port = 0, Seed = []\<rparr>\<rparr>,
      AntiEntropy = \<lparr>Interval = 600\<rparr>\<rparr>"

definition example_server :: Server where
  "example_server =
     \<lparr>LogOutput = OtherWriter 2,
      Index = \<lparr>Path = [], Stats = NopStatsClient\<rparr>,
      Server.Host = [],
      Broadcaster = NopBroadcaster,
      Server.Cluster = NewCluster,
      AntiEntropyInterval = 0\<rparr>"

definition example_command :: "Config \<Rightarrow> Command" where
  "example_command c =
     \<lparr>Server = example_server,
      Config = c,
      Stderr = CmdStderr,
      Output = [],
      Started = False\<rparr>"

definition example_env :: Env where
  "example_env =
     \<lparr>Getenv_HOME = ''/home/pilosa'',
      filepath_Separator = CHR ''/'',
      filepath_Join = (\<lambda>dir name. dir @ ''/'' @ name),
      os_OpenFile = (\<lambda>path. if path = ''/forbidden/pilosa.log''
                             then Some (Error ''open /forbidden/pilosa.log: permission denied'')
                             else None),
      net_SplitHostPort = (\<lambda>hostport. if Contains hostport '':''
                                       then Some (takeWhile (\<lambda>ch. ch \<noteq> CHR '':'') hostport)
                                       else None),
      DefaultGossipPort = ''14000'',
      DefaultHost = ''localhost:10101'',
      Server_Open = (\<lambda>s. if Server.Host s = ''localhost:1''
                           then (Some (Error ''listen tcp localhost:1: permission denied''), s)
                           else (None, s))\<rparr>"

text \<open>The cluster that the configuration above describes, with a given node set.\<close>

definition example_cluster :: "NodeSet \<Rightarrow> Cluster" where
  "example_cluster ns =
     \<lparr>Cluster.ReplicaN = 2,
      Cluster.Nodes = [\<lparr>Node.Host = ''a:10101''\<rparr>, \<lparr>Node.Host = ''b:10101''\<rparr>, \<lparr>Node.Host = ''c:10101''\<rparr>],
      NodeSet = ns\<rparr>"

section \<open>Facts about the string functions\<close>

lemma HasPrefix_iff_prefix: "HasPrefix s p \<longleftrightarrow> prefix p s"
  by (auto simp: HasPrefix_def prefix_def min_def) (metis append_eq_conv_conj)

lemma Contains_iff_sublist: "Contains s substr \<longleftrightarrow> sublist substr s"
proof (induction s)
  case Nil
  show ?case by simp
next
  case (Cons c s)
  show ?case
    by (simp add: Cons.IH HasPrefix_iff_prefix sublist_Cons_right)
qed

lemma Contains_scheme_imp_colon:
  assumes "Contains host ''://''"
  shows "Contains host '':''"
proof -
  from assms obtain ps ss where "host = ps @ ''://'' @ ss"
    by (auto simp: Contains_iff_sublist sublist_def)
  then have "host = ps @ '':'' @ (''//'' @ ss)" by simp
  then show ?thesis
    unfolding Contains_iff_sublist sublist_def by blast
qed

lemma HasPrefix_http_imp_scheme:
  assumes "HasPrefix host ''http://''"
  shows "Contains host ''://''"
proof -
  from assms obtain ss where "host = ''http://'' @ ss"
    by (auto simp: HasPrefix_iff_prefix prefix_def)
  then have "host = ''http'' @ ''://'' @ ss" by simp
  then show ?thesis
    unfolding Contains_iff_sublist sublist_def by blast
qed

section \<open>Facts about the factories\<close>

lemma appendNodes_eq:
  "appendNodes nodes hostports = nodes @ map (\<lambda>hostport. \<lparr>Node.Host = hostport\<rparr>) hostports"
  by (induction hostports arbitrary: nodes) simp_all

lemma PilosaCluster_http:
  assumes "BroadcasterType (Config.Cluster c) = ''http''"
  shows "PilosaCluster e c =
     Inr \<lparr>Cluster.ReplicaN = ClusterConfig.ReplicaN (Config.Cluster c),
          Cluster.Nodes = map (\<lambda>hostport. \<lparr>Node.Host = hostport\<rparr>) (ClusterConfig.Nodes (Config.Cluster c)),
          NodeSet = HTTPNodeSet (map (\<lambda>hostport. \<lparr>Node.Host = hostport\<rparr>) (ClusterConfig.Nodes (Config.Cluster c)))\<rparr>"
  using assms
  by (simp add: PilosaCluster_def NewCluster_def NewHTTPNodeSet_def appendNodes_eq)

lemma PilosaCluster_static:
  assumes "BroadcasterType (Config.Cluster c) \<noteq> ''http''" "BroadcasterType (Config.Cluster c) \<noteq> ''gossip''"
  shows "PilosaCluster e c =
     Inr \<lparr>Cluster.ReplicaN = ClusterConfig.ReplicaN (Config.Cluster c),
          Cluster.Nodes = map (\<lambda>hostport. \<lparr>Node.Host = hostport\<rparr>) (ClusterConfig.Nodes (Config.Cluster c)),
          NodeSet = StaticNodeSet\<rparr>"
  using assms
  by (simp add: PilosaCluster_def NewCluster_def NewStaticNodeSet_def appendNodes_eq)

lemma PilosaCluster_gossip:
  assumes "BroadcasterType (Config.Cluster c) = ''gossip''" "Atoi (DefaultGossipPort e) = Some gport"
  shows "PilosaCluster e c =
     Inr \<lparr>Cluster.ReplicaN = ClusterConfig.ReplicaN (Config.Cluster c),
          Cluster.Nodes = map (\<lambda>hostport. \<lparr>Node.Host = hostport\<rparr>) (ClusterConfig.Nodes (Config.Cluster c)),
          NodeSet = GossipNodeSet (Config.Host c)
             (case net_SplitHostPort e (Config.Host c) of Some h \<Rightarrow> h | None \<Rightarrow> Config.Host c)
             (if Port (Gossip (Config.Cluster c)) \<noteq> 0 then Port (Gossip (Config.Cluster c)) else gport)
             (if Seed (Gossip (Config.Cluster c)) \<noteq> [] then Seed (Gossip (Config.Cluster c)) else DefaultHost e)
             None\<rparr>"
  using assms
  by (simp add: PilosaCluster_def NewCluster_def NewGossipNodeSet_def appendNodes_eq Let_def)

lemma PilosaCluster_gossip_panic:
  assumes "BroadcasterType (Config.Cluster c) = ''gossip''" "Atoi (DefaultGossipPort e) = None"
  shows "PilosaCluster e c = Inl (AtoiPanic (DefaultGossipPort e))"
  using assms
  by (simp add: PilosaCluster_def)

lemma PilosaCluster_returns_iff:
  "(\<exists>cluster. PilosaCluster e c = Inr cluster)
   \<longleftrightarrow> (BroadcasterType (Config.Cluster c) = ''gossip'' \<longrightarrow> Atoi (DefaultGossipPort e) \<noteq> None)"
proof (cases "BroadcasterType (Config.Cluster c) = ''gossip''")
  case True
  show ?thesis
  proof (cases "Atoi (DefaultGossipPort e)")
    case None
    with True show ?thesis by (simp add: PilosaCluster_gossip_panic)
  next
    case (Some gport)
    with True show ?thesis by (simp add: PilosaCluster_gossip)
  qed
next
  case False
  show ?thesis
  proof (cases "BroadcasterType (Config.Cluster c) = ''http''")
    case True
    then show ?thesis by (simp add: PilosaCluster_http)
  next
    case nothttp: False
    with False show ?thesis by (simp add: PilosaCluster_static)
  qed
qed

lemma AssociateBroadcaster_wired:
  assumes "PilosaCluster e c = Inr cluster"
  shows "\<exists>s'. AssociateBroadcaster (s\<lparr>Broadcaster := PilosaBroadcaster c s0, Server.Cluster := cluster\<rparr>) c = Inr s'"
proof (cases "BroadcasterType (Config.Cluster c) = ''gossip''")
  case True
  with assms obtain gport where "Atoi (DefaultGossipPort e) = Some gport"
    by (cases "Atoi (DefaultGossipPort e)") (simp_all add: PilosaCluster_gossip_panic)
  from PilosaCluster_gossip [OF True this] assms True show ?thesis
    by (auto simp: AssociateBroadcaster_def PilosaBroadcaster_def NewGossipBroadcaster_def)
next
  case False
  then show ?thesis by (simp add: AssociateBroadcaster_def Let_def)
qed


section \<open>Facts about the blocks of Command.Run\<close>

lemma resolveDataDir_no_home:
  assumes "HasPrefix (DataDir (Config m)) (''~'' @ [filepath_Separator e])" "Getenv_HOME e = []"
  shows "resolveDataDir e m =
           Inl (Error ''data directory not specified and no home dir available'')"
  using assms by (simp add: resolveDataDir_def errors_New_def)

lemma resolveDataDir_ok:
  assumes "\<not> (HasPrefix (DataDir (Config m)) (''~'' @ [filepath_Separator e]) \<and> Getenv_HOME e = [])"
  shows "\<exists>m1. resolveDataDir e m = Inr m1"
  using assms by (simp add: resolveDataDir_def Let_def)

lemma resolveDataDir_frame:
  assumes "resolveDataDir e m = Inr m1"
  shows "Server m1 = Server m \<and> Stderr m1 = Stderr m \<and> Output m1 = Output m
         \<and> Started m1 = Started m
         \<and> LogPath (Config m1) = LogPath (Config m)
         \<and> Config.Host (Config m1) = Config.Host (Config m)
         \<and> Config.Cluster (Config m1) = Config.Cluster (Config m)
         \<and> AntiEntropy (Config m1) = AntiEntropy (Config m)"
proof (cases "HasPrefix (DataDir (Config m)) (''~'' @ [filepath_Separator e])")
  case True
  with assms show ?thesis
    by (cases "Getenv_HOME e = []") (auto simp: resolveDataDir_def Let_def)
next
  case False
  with assms show ?thesis by (simp add: resolveDataDir_def Let_def)
qed

lemma setupLogging_fails:
  assumes "LogPath (Config m) \<noteq> []" "os_OpenFile e (LogPath (Config m)) = Some err"
  shows "setupLogging e m = Inl err"
  using assms by (simp add: setupLogging_def)

lemma setupLogging_ok:
  assumes "LogPath (Config m) = [] \<or> os_OpenFile e (LogPath (Config m)) = None"
  shows "\<exists>m2. setupLogging e m = Inr m2"
  using assms by (auto simp: setupLogging_def)

lemma setupLogging_frame:
  assumes "setupLogging e m = Inr m2"
  shows "Config m2 = Config m \<and> Stderr m2 = Stderr m \<and> Output m2 = Output m
         \<and> Started m2 = Started m
         \<and> Broadcaster (Server m2) = Broadcaster (Server m)
         \<and> Server.Cluster (Server m2) = Server.Cluster (Server m)
         \<and> Index (Server m2) = Index (Server m)
         \<and> Server.Host (Server m2) = Server.Host (Server m)"
proof (cases "LogPath (Config m) = []")
  case True
  with assms show ?thesis by (auto simp: setupLogging_def)
next
  case False
  with assms show ?thesis
    by (cases "os_OpenFile e (LogPath (Config m))") (auto simp: setupLogging_def)
qed

lemma configureIndex_Config [simp]: "Config (configureIndex m) = Config m"
  by (simp add: configureIndex_def Fprintf_def Let_def)

lemma configureIndex_Broadcaster [simp]:
  "Broadcaster (Server (configureIndex m)) = Broadcaster (Server m)"
  by (simp add: configureIndex_def Fprintf_def Let_def)

lemma configureIndex_Cluster [simp]:
  "Server.Cluster (Server (configureIndex m)) = Server.Cluster (Server m)"
  by (simp add: configureIndex_def Fprintf_def Let_def)

lemma buildCluster_host_error:
  assumes "normalizeHost (Config.Host (Config m)) = (h, Some err)"
  shows "buildCluster e m = (Some (Returns (Some err)), m\<lparr>Server := (Server m)\<lparr>Server.Host := h\<rparr>\<rparr>)"
  using assms by (simp add: buildCluster_def)

lemma buildCluster_panics:
  assumes "normalizeHost (Config.Host (Config m)) = (h, None)"
    and "BroadcasterType (Config.Cluster (Config m)) = ''gossip''"
    and "Atoi (DefaultGossipPort e) = None"
  shows "fst (buildCluster e m) = Some (Panics (AtoiPanic (DefaultGossipPort e)))"
  using assms by (simp add: buildCluster_def PilosaCluster_gossip_panic)

lemma buildCluster_goes_on:
  assumes "normalizeHost (Config.Host (Config m)) = (h, None)"
    and "PilosaCluster e (Config m) = Inr cluster"
  shows "\<exists>m'. buildCluster e m = (None, m')
           \<and> Cluster.ReplicaN (Server.Cluster (Server m')) = Cluster.ReplicaN cluster
           \<and> Cluster.Nodes (Server.Cluster (Server m')) = Cluster.Nodes cluster
           \<and> Broadcaster (Server m') = PilosaBroadcaster (Config m) (Server m)
           \<and> Server.Host (Server m') = h"
proof -
  let ?s = "(Server m)\<lparr>Server.Host := h\<rparr>"
  from AssociateBroadcaster_wired [OF assms(2), of ?s "?s"]
  obtain s' where s': "AssociateBroadcaster
       (?s\<lparr>Broadcaster := PilosaBroadcaster (Config m) ?s, Server.Cluster := cluster\<rparr>) (Config m) = Inr s'"
    by blast
  have fields: "Cluster.ReplicaN (Server.Cluster s') = Cluster.ReplicaN cluster
       \<and> Cluster.Nodes (Server.Cluster s') = Cluster.Nodes cluster
       \<and> Broadcaster s' = PilosaBroadcaster (Config m) (Server m)
       \<and> Server.Host s' = h"
    using s'
    by (auto simp: AssociateBroadcaster_def Let_def PilosaBroadcaster_def
        split: if_splits sum.splits)
  show ?thesis
    using assms s' fields by (simp add: buildCluster_def)
qed

lemma Run_resolveDataDir_Inl:
  assumes "resolveDataDir e m = Inl err"
  shows "Run e m = (Returns (Some err), m\<lparr>Started := True\<rparr>)"
  using assms by (simp add: Run_def)

lemma Run_setupLogging_Inl:
  assumes "resolveDataDir e m = Inr m1" and "setupLogging e m1 = Inl err"
  shows "Run e m = (Returns (Some err), m1\<lparr>Started := True\<rparr>)"
  using assms by (simp add: Run_def)

lemma Run_buildCluster_ends:
  assumes "resolveDataDir e m = Inr m1" and "setupLogging e m1 = Inr m2"
    and "buildCluster e (configureIndex m2) = (Some r, m3)"
  shows "Run e m = (r, m3\<lparr>Started := True\<rparr>)"
  using assms by (simp add: Run_def)

lemma Run_reaches_Open:
  assumes "resolveDataDir e m = Inr m1" and "setupLogging e m1 = Inr m2"
    and "buildCluster e (configureIndex m2) = (None, m3)"
  shows "Run e m = (case initializeServer e m3 of (r, m') \<Rightarrow> (r, m'\<lparr>Started := True\<rparr>))"
  using assms by (simp add: Run_def)

lemma initializeServer_fails:
  assumes "fst (Server_Open e (Server m)) = Some err"
  shows "fst (initializeServer e m) = Returns (Some (Error (''server.Open: '' @ message err)))"
  using assms by (cases "Server_Open e (Server m)") (simp add: initializeServer_def)

lemma initializeServer_succeeds:
  assumes "fst (Server_Open e (Server m)) = None"
  shows "fst (initializeServer e m) = Returns None"
  using assms by (cases "Server_Open e (Server m)") (simp add: initializeServer_def Let_def)

lemma Run_host_error:
  assumes nohome: "\<not> (HasPrefix (DataDir (Config m)) (''~'' @ [filepath_Separator e]) \<and> Getenv_HOME e = [])"
    and logok: "LogPath (Config m) = [] \<or> os_OpenFile e (LogPath (Config m)) = None"
    and host: "normalizeHost (Config.Host (Config m)) = (h, Some err)"
  shows "fst (Run e m) = Returns (Some err)"
proof -
  from resolveDataDir_ok [OF nohome] obtain m1 where m1: "resolveDataDir e m = Inr m1" ..
  note f1 = resolveDataDir_frame [OF m1]
  from logok f1 have "LogPath (Config m1) = [] \<or> os_OpenFile e (LogPath (Config m1)) = None"
    by simp
  from setupLogging_ok [OF this] obtain m2 where m2: "setupLogging e m1 = Inr m2" ..
  note f2 = setupLogging_frame [OF m2]
  from host f1 f2 have "normalizeHost (Config.Host (Config (configureIndex m2))) = (h, Some err)"
    by simp
  from buildCluster_host_error [OF this, of e] Run_buildCluster_ends [OF m1 m2]
  show ?thesis by simp
qed

lemma Run_early_return_keeps_wiring:
  assumes "snd (normalizeHost (Config.Host (Config m))) \<noteq> None"
  shows "(\<exists>err. fst (Run e m) = Returns (Some err))
         \<and> Broadcaster (Server (snd (Run e m))) = Broadcaster (Server m)
         \<and> Server.Cluster (Server (snd (Run e m))) = Server.Cluster (Server m)"
proof (cases "resolveDataDir e m")
  case (Inl err)
  from Run_resolveDataDir_Inl [OF this] show ?thesis by simp
next
  case (Inr m1)
  note f1 = resolveDataDir_frame [OF Inr]
  show ?thesis
  proof (cases "setupLogging e m1")
    case (Inl err)
    from Run_setupLogging_Inl [OF Inr this] f1 show ?thesis by simp
  next
    case m2: (Inr m2)
    note f2 = setupLogging_frame [OF m2]
    from assms obtain h err where "normalizeHost (Config.Host (Config m)) = (h, Some err)"
      by (cases "normalizeHost (Config.Host (Config m))") auto
    with f1 f2 have "normalizeHost (Config.Host (Config (configureIndex m2))) = (h, Some err)"
      by simp
    from buildCluster_host_error [OF this, of e] Run_buildCluster_ends [OF Inr m2] f1 f2
    show ?thesis by simp
  qed
qed

lemma AssociateBroadcaster_not_gossip:
  assumes "BroadcasterType (Config.Cluster c) \<noteq> ''gossip''"
  shows "AssociateBroadcaster s c = Inr s"
  using assms by (simp add: AssociateBroadcaster_def Let_def)

lemma buildCluster_not_gossip:
  assumes "normalizeHost (Config.Host (Config m)) = (h, None)"
    and "PilosaCluster e (Config m) = Inr cluster"
    and "BroadcasterType (Config.Cluster (Config m)) \<noteq> ''gossip''"
  shows "\<exists>m'. buildCluster e m = (None, m') \<and> Server.Cluster (Server m') = cluster"
  using assms by (simp add: buildCluster_def AssociateBroadcaster_not_gossip)

lemma PilosaCluster_reads:
  assumes "Config.Host c' = Config.Host c" and "Config.Cluster c' = Config.Cluster c"
  shows "PilosaCluster e c' = PilosaCluster e c"
  unfolding PilosaCluster_def assms by (rule refl)

lemma PilosaBroadcaster_reads:
  assumes "Config.Cluster c' = Config.Cluster c"
  shows "PilosaBroadcaster c' s' = PilosaBroadcaster c s"
  unfolding PilosaBroadcaster_def assms by (rule refl)

lemma Run_wiring_succeeds:
  assumes nohome: "\<not> (HasPrefix (DataDir (Config m)) (''~'' @ [filepath_Separator e]) \<and> Getenv_HOME e = [])"
    and logok: "LogPath (Config m) = [] \<or> os_OpenFile e (LogPath (Config m)) = None"
    and host: "normalizeHost (Config.Host (Config m)) = (h, None)"
    and cl: "PilosaCluster e (Config m) = Inr cluster"
  shows "\<exists>m3. Run e m = (case initializeServer e m3 of (r, m') \<Rightarrow> (r, m'\<lparr>Started := True\<rparr>))
           \<and> Server.Host (Server m3) = h
           \<and> Broadcaster (Server m3) = PilosaBroadcaster (Config m) (Server m)
           \<and> Cluster.ReplicaN (Server.Cluster (Server m3)) = Cluster.ReplicaN cluster
           \<and> Cluster.Nodes (Server.Cluster (Server m3)) = Cluster.Nodes cluster
           \<and> (BroadcasterType (Config.Cluster (Config m)) \<noteq> ''gossip''
                \<longrightarrow> Server.Cluster (Server m3) = cluster)"
proof -
  from resolveDataDir_ok [OF nohome] obtain m1 where m1: "resolveDataDir e m = Inr m1" ..
  note f1 = resolveDataDir_frame [OF m1]
  from logok f1 have "LogPath (Config m1) = [] \<or> os_OpenFile e (LogPath (Config m1)) = None"
    by simp
  from setupLogging_ok [OF this] obtain m2 where m2: "setupLogging e m1 = Inr m2" ..
  note f2 = setupLogging_frame [OF m2]
  let ?m = "configureIndex m2"
  have cfg: "Config.Host (Config ?m) = Config.Host (Config m)"
    "Config.Cluster (Config ?m) = Config.Cluster (Config m)"
    using f1 f2 by simp_all
  have host': "normalizeHost (Config.Host (Config ?m)) = (h, None)"
    using host cfg by simp
  have cl': "PilosaCluster e (Config ?m) = Inr cluster"
    using cl PilosaCluster_reads [OF cfg] by simp
  have pb: "PilosaBroadcaster (Config ?m) (Server ?m) = PilosaBroadcaster (Config m) (Server m)"
    using PilosaBroadcaster_reads [OF cfg(2)] by simp
  from buildCluster_goes_on [OF host' cl'] obtain m3
    where m3: "buildCluster e ?m = (None, m3)"
      and fields: "Cluster.ReplicaN (Server.Cluster (Server m3)) = Cluster.ReplicaN cluster"
        "Cluster.Nodes (Server.Cluster (Server m3)) = Cluster.Nodes cluster"
        "Broadcaster (Server m3) = PilosaBroadcaster (Config ?m) (Server ?m)"
        "Server.Host (Server m3) = h"
    by blast
  have ng: "BroadcasterType (Config.Cluster (Config m)) \<noteq> ''gossip''
              \<longrightarrow> Server.Cluster (Server m3) = cluster"
  proof
    assume "BroadcasterType (Config.Cluster (Config m)) \<noteq> ''gossip''"
    then have "BroadcasterType (Config.Cluster (Config ?m)) \<noteq> ''gossip''"
      using cfg by simp
    from buildCluster_not_gossip [OF host' cl' this] m3
    show "Server.Cluster (Server m3) = cluster" by simp
  qed
  from Run_reaches_Open [OF m1 m2 m3] fields pb ng show ?thesis by auto
qed

lemma Run_ends_with_Open:
  assumes nohome: "\<not> (HasPrefix (DataDir (Config m)) (''~'' @ [filepath_Separator e]) \<and> Getenv_HOME e = [])"
    and logok: "LogPath (Config m) = [] \<or> os_OpenFile e (LogPath (Config m)) = None"
    and host: "normalizeHost (Config.Host (Config m)) = (h, None)"
    and cl: "PilosaCluster e (Config m) = Inr cluster"
  obtains m3 :: Command
    where "Server.Host (Server m3) = h"
      and "Broadcaster (Server m3) = PilosaBroadcaster (Config m) (Server m)"
      and "Cluster.ReplicaN (Server.Cluster (Server m3)) = Cluster.ReplicaN cluster"
      and "Cluster.Nodes (Server.Cluster (Server m3)) = Cluster.Nodes cluster"
      and "BroadcasterType (Config.Cluster (Config m)) \<noteq> ''gossip''
             \<Longrightarrow> Server.Cluster (Server m3) = cluster"
      and "\<And>err. fst (Server_Open e (Server m3)) = Some err
             \<Longrightarrow> fst (Run e m) = Returns (Some (Error (''server.Open: '' @ message err)))"
      and "fst (Server_Open e (Server m3)) = None \<Longrightarrow> fst (Run e m) = Returns None"
proof -
  from Run_wiring_succeeds [OF assms] obtain m3
    where m3: "Run e m = (case initializeServer e m3 of (r, m') \<Rightarrow> (r, m'\<lparr>Started := True\<rparr>))
           \<and> Server.Host (Server m3) = h
           \<and> Broadcaster (Server m3) = PilosaBroadcaster (Config m) (Server m)
           \<and> Cluster.ReplicaN (Server.Cluster (Server m3)) = Cluster.ReplicaN cluster
           \<and> Cluster.Nodes (Server.Cluster (Server m3)) = Cluster.Nodes cluster
           \<and> (BroadcasterType (Config.Cluster (Config m)) \<noteq> ''gossip''
                \<longrightarrow> Server.Cluster (Server m3) = cluster)" ..
  then have run: "Run e m = (case initializeServer e m3 of (r, m') \<Rightarrow> (r, m'\<lparr>Started := True\<rparr>))"
    by (elim conjE)
  have fst_run: "fst (Run e m) = fst (initializeServer e m3)"
    unfolding run by (cases "initializeServer e m3") simp
  show thesis
  proof (rule that [of m3])
    from m3 show "Server.Host (Server m3) = h" by (elim conjE)
    from m3 show "Broadcaster (Server m3) = PilosaBroadcaster (Config m) (Server m)"
      by (elim conjE)
    from m3 show "Cluster.ReplicaN (Server.Cluster (Server m3)) = Cluster.ReplicaN cluster"
      by (elim conjE)
    from m3 show "Cluster.Nodes (Server.Cluster (Server m3)) = Cluster.Nodes cluster"
      by (elim conjE)
    from m3 show "Server.Cluster (Server m3) = cluster"
      if "BroadcasterType (Config.Cluster (Config m)) \<noteq> ''gossip''"
      using that by (elim conjE impE)
    show "fst (Run e m) = Returns (Some (Error (''server.Open: '' @ message err)))"
      if "fst (Server_Open e (Server m3)) = Some err" for err
      using fst_run initializeServer_fails [OF that] by simp
    show "fst (Run e m) = Returns None" if "fst (Server_Open e (Server m3)) = None"
      using fst_run initializeServer_succeeds [OF that] by simp
  qed
qed

section \<open>Facts about the concrete inputs\<close>

lemma Atoi_example: "Atoi (DefaultGossipPort example_env) = Some 14000"
  by (simp add: example_env_def Atoi_def digit_val_def)

lemma PilosaCluster_example_static:
  "PilosaCluster example_env (example_config ''static'') = Inr (example_cluster StaticNodeSet)"
  by (simp add: PilosaCluster_static example_config_def example_cluster_def)

lemma example_gossip_host:
  "net_SplitHostPort example_env ''localhost:10101'' = Some ''localhost''"
  by (simp add: example_env_def HasPrefix_def)

lemma example_home: "Getenv_HOME example_env \<noteq> []"
  by (simp add: example_env_def)

lemma example_command_fields:
  "Config (example_command c) = c" "Server (example_command c) = example_server"
  by (simp_all add: example_command_def)

lemma example_normalizeHost:
  "normalizeHost ''localhost:10101'' = (''localhost:10101'', None)"
  "normalizeHost ''localhost:1'' = (''localhost:1'', None)"
  by (simp_all add: normalizeHost_def HasPrefix_def)

lemma example_Server_Open:
  "Server.Host s = ''localhost:10101'' \<Longrightarrow> fst (Server_Open example_env s) = None"
  "Server.Host s = ''localhost:1'' \<Longrightarrow>
     fst (Server_Open example_env s) = Some (Error ''listen tcp localhost:1: permission denied'')"
  by (simp_all add: example_env_def)

lemma example_OpenFile:
  "os_OpenFile example_env ''/forbidden/pilosa.log'' =
     Some (Error ''open /forbidden/pilosa.log: permission denied'')"
  by (simp add: example_env_def)

lemma PilosaCluster_example_not_gossip:
  assumes "ty \<noteq> ''http''" and "ty \<noteq> ''gossip''"
  shows "PilosaCluster example_env ((example_config ty)\<lparr>Config.Host := host\<rparr>)
           = Inr (example_cluster StaticNodeSet)"
    and "PilosaCluster example_env (example_config ty) = Inr (example_cluster StaticNodeSet)"
  using assms by (simp_all add: PilosaCluster_static example_config_def example_cluster_def)


lemma example_ftp_host:
  "Contains ''ftp://localhost:10101'' ''://'' \<and> \<not> HasPrefix ''ftp://localhost:10101'' ''http://''"
  by (simp add: HasPrefix_def)

lemma example_ok:
  assumes "LogPath c = []"
  shows "\<not> (HasPrefix (DataDir (Config (example_command c))) (''~'' @ [filepath_Separator example_env])
            \<and> Getenv_HOME example_env = [])
         \<and> (LogPath (Config (example_command c)) = []
              \<or> os_OpenFile example_env (LogPath (Config (example_command c))) = None)"
  using assms example_home by (simp add: example_command_fields)

lemma example_ftp_error: "snd (normalizeHost ''ftp://localhost:10101'') \<noteq> None"
  by (simp add: normalizeHost_def HasPrefix_def)

section \<open>Claims about normalizeHost\<close>

text \<open>
  C8: normalizeHost is a total function of the host string with an exhaustive case
  split. A host with no \<open>":"\<close> gets \<open>":"\<close> appended and no error; a host with
  \<open>":"\<close> but no \<open>"://"\<close> is returned unchanged with no error; a host beginning
  with \<open>"http://"\<close> loses its first 7 characters and has no error. The one remaining case
  (a \<open>"://"\<close> without the \<open>"http://"\<close> prefix) is the only one with an error.
\<close>

theorem normalizeHost_cases:
  "(\<not> Contains host '':'' \<longrightarrow> normalizeHost host = (host @ '':'', None))
   \<and> (Contains host '':'' \<and> \<not> Contains host ''://'' \<longrightarrow> normalizeHost host = (host, None))
   \<and> (HasPrefix host ''http://'' \<longrightarrow> normalizeHost host = (drop 7 host, None))
   \<and> (snd (normalizeHost host) \<noteq> None
        \<longleftrightarrow> Contains host ''://'' \<and> \<not> HasPrefix host ''http://'')
   \<and> (\<not> Contains host '':''
        \<or> (Contains host '':'' \<and> \<not> Contains host ''://'')
        \<or> HasPrefix host ''http://''
        \<or> (Contains host ''://'' \<and> \<not> HasPrefix host ''http://''))"
  using Contains_scheme_imp_colon [of host] HasPrefix_http_imp_scheme [of host]
  by (auto simp: normalizeHost_def)

theorem normalizeHost_cases_witness:
  "normalizeHost ''localhost'' = (''localhost:'', None)
   \<and> normalizeHost ''localhost:10101'' = (''localhost:10101'', None)
   \<and> normalizeHost ''http://localhost:10101'' = (''localhost:10101'', None)
   \<and> snd (normalizeHost ''ftp://localhost:10101'') \<noteq> None"
proof -
  have a: "\<not> Contains ''localhost'' '':''"
    by (simp add: HasPrefix_def)
  have b: "Contains ''localhost:10101'' '':'' \<and> \<not> Contains ''localhost:10101'' ''://''"
    by (simp add: HasPrefix_def)
  have c: "HasPrefix ''http://localhost:10101'' ''http://''"
    by (simp add: HasPrefix_def)
  have d: "Contains ''ftp://localhost:10101'' ''://''
           \<and> \<not> HasPrefix ''ftp://localhost:10101'' ''http://''"
    by (simp add: HasPrefix_def)
  show ?thesis
    using a b c d
      normalizeHost_cases [of "''localhost''"]
      normalizeHost_cases [of "''localhost:10101''"]
      normalizeHost_cases [of "''http://localhost:10101''"]
      normalizeHost_cases [of "''ftp://localhost:10101''"]
    by simp
qed

section \<open>Claims about the shard width\<close>

text \<open>
  C2: in the default build the shard-width exponent is 24 and the shard of a column
  address is the address shifted right by the exponent. So two addresses with the same
  value of \<open>address >> 24\<close> have the same shard, address 16777216 is in shard 1 and
  address 16777215 is in shard 0.
\<close>

theorem shardOf_default_build:
  "Exponent = 24
   \<and> shardOf a = drop_bit 24 a
   \<and> unat (shardOf a) = unat a div 2 ^ 24
   \<and> (drop_bit 24 a1 = drop_bit 24 a2 \<longrightarrow> shardOf a1 = shardOf a2)
   \<and> shardOf 16777216 = 1
   \<and> shardOf 16777215 = 0"
proof (intro conjI impI)
  show "Exponent = 24" by (simp add: Exponent_def)
  show "shardOf a = drop_bit 24 a" by (simp add: shardOf_def Exponent_def)
  show "unat (shardOf a) = unat a div 2 ^ 24"
    by (simp add: shardOf_def Exponent_def drop_bit_eq_div unat_div)
  show "shardOf a1 = shardOf a2" if "drop_bit 24 a1 = drop_bit 24 a2"
    using that by (simp add: shardOf_def Exponent_def)
  show "shardOf 16777216 = 1" by (simp add: shardOf_def Exponent_def drop_bit_eq_div)
  show "shardOf 16777215 = 0" by (simp add: shardOf_def Exponent_def drop_bit_eq_div)
qed

theorem shardOf_default_build_witness:
  "drop_bit 24 (16777216 :: 64 word) = drop_bit 24 (33554431 :: 64 word)
   \<and> shardOf 16777216 = shardOf 33554431
   \<and> shardOf 33554431 = 1"
proof -
  have h: "drop_bit 24 (16777216 :: 64 word) = drop_bit 24 (33554431 :: 64 word)"
    by (simp add: drop_bit_eq_div)
  have v: "drop_bit 24 (33554431 :: 64 word) = 1"
    by (simp add: drop_bit_eq_div)
  from shardOf_default_build [of 33554431 16777216 33554431] h v show ?thesis
    by metis
qed

section \<open>Claims about the factories\<close>

text \<open>
  C3: the variant is chosen by the configured BroadcasterType. For \<open>"http"\<close>
  PilosaBroadcaster returns an HTTP broadcaster and PilosaCluster installs an HTTP node set
  joined to the configured nodes; for \<open>"gossip"\<close> they give a gossip broadcaster and
  (the default gossip port being a number) a gossip node set; for \<open>"static"\<close> they
  give the Nop broadcaster and a static node set.
\<close>

theorem variant_factory:
  "(BroadcasterType (Config.Cluster c) = ''http'' \<longrightarrow>
      PilosaBroadcaster c s = HTTPBroadcaster
      \<and> (\<exists>cluster. PilosaCluster e c = Inr cluster
            \<and> NodeSet cluster = HTTPNodeSet (map (\<lambda>hostport. \<lparr>Node.Host = hostport\<rparr>)
                                              (ClusterConfig.Nodes (Config.Cluster c)))))
   \<and> (BroadcasterType (Config.Cluster c) = ''gossip'' \<longrightarrow>
      PilosaBroadcaster c s = GossipBroadcaster
      \<and> (Atoi (DefaultGossipPort e) \<noteq> None \<longrightarrow>
           (\<exists>cluster name gossipHost gossipPort gossipSeed.
              PilosaCluster e c = Inr cluster
              \<and> NodeSet cluster = GossipNodeSet name gossipHost gossipPort gossipSeed None)))
   \<and> (BroadcasterType (Config.Cluster c) = ''static'' \<longrightarrow>
      PilosaBroadcaster c s = NopBroadcaster
      \<and> (\<exists>cluster. PilosaCluster e c = Inr cluster \<and> NodeSet cluster = StaticNodeSet))"
proof (intro conjI impI)
  assume "BroadcasterType (Config.Cluster c) = ''http''"
  then show "PilosaBroadcaster c s = HTTPBroadcaster"
    by (simp add: PilosaBroadcaster_def NewHTTPBroadcaster_def)
next
  assume "BroadcasterType (Config.Cluster c) = ''http''"
  from PilosaCluster_http [OF this, of e]
  show "\<exists>cluster. PilosaCluster e c = Inr cluster
            \<and> NodeSet cluster = HTTPNodeSet (map (\<lambda>hostport. \<lparr>Node.Host = hostport\<rparr>)
                                              (ClusterConfig.Nodes (Config.Cluster c)))"
    by simp
next
  assume "BroadcasterType (Config.Cluster c) = ''gossip''"
  then show "PilosaBroadcaster c s = GossipBroadcaster"
    by (simp add: PilosaBroadcaster_def NewGossipBroadcaster_def)
next
  assume ty: "BroadcasterType (Config.Cluster c) = ''gossip''"
    and "Atoi (DefaultGossipPort e) \<noteq> None"
  then obtain gport where "Atoi (DefaultGossipPort e) = Some gport" by auto
  from PilosaCluster_gossip [OF ty this]
  show "\<exists>cluster name gossipHost gossipPort gossipSeed.
              PilosaCluster e c = Inr cluster
              \<and> NodeSet cluster = GossipNodeSet name gossipHost gossipPort gossipSeed None"
    by simp
next
  assume "BroadcasterType (Config.Cluster c) = ''static''"
  then show "PilosaBroadcaster c s = NopBroadcaster"
    by (simp add: PilosaBroadcaster_def)
next
  assume "BroadcasterType (Config.Cluster c) = ''static''"
  then have "BroadcasterType (Config.Cluster c) \<noteq> ''http''"
    "BroadcasterType (Config.Cluster c) \<noteq> ''gossip''" by simp_all
  from PilosaCluster_static [OF this, of e]
  show "\<exists>cluster. PilosaCluster e c = Inr cluster \<and> NodeSet cluster = StaticNodeSet"
    by simp
qed

theorem variant_factory_witness:
  "PilosaBroadcaster (example_config ''http'') example_server = HTTPBroadcaster
   \<and> PilosaBroadcaster (example_config ''gossip'') example_server = GossipBroadcaster
   \<and> PilosaBroadcaster (example_config ''static'') example_server = NopBroadcaster
   \<and> (\<exists>cluster. PilosaCluster example_env (example_config ''static'') = Inr cluster
         \<and> NodeSet cluster = StaticNodeSet)
   \<and> (\<exists>cluster. PilosaCluster example_env (example_config ''http'') = Inr cluster
         \<and> NodeSet cluster =
             HTTPNodeSet [\<lparr>Node.Host = ''a:10101''\<rparr>, \<lparr>Node.Host = ''b:10101''\<rparr>, \<lparr>Node.Host = ''c:10101''\<rparr>])
   \<and> (\<exists>cluster name gossipHost gossipPort gossipSeed.
          PilosaCluster example_env (example_config ''gossip'') = Inr cluster
          \<and> NodeSet cluster = GossipNodeSet name gossipHost gossipPort gossipSeed None)"
  using variant_factory [of "example_config ''http''" example_server example_env]
    variant_factory [of "example_config ''gossip''" example_server example_env]
    variant_factory [of "example_config ''static''" example_server example_env]
    Atoi_example
  by (simp add: example_config_def)

text \<open>
  C5: PilosaCluster builds the cluster from the configuration alone. It returns a cluster
  unless the type is \<open>"gossip"\<close> and the default gossip port is no number; the
  cluster it returns has the configured replica factor and exactly one node for each
  configured hostport, with that hostport as its Host, in the order of the configuration.
\<close>

theorem PilosaCluster_from_config:
  "((\<exists>cluster. PilosaCluster e c = Inr cluster)
      \<longleftrightarrow> (BroadcasterType (Config.Cluster c) = ''gossip'' \<longrightarrow> Atoi (DefaultGossipPort e) \<noteq> None))
   \<and> (PilosaCluster e c = Inr cluster \<longrightarrow>
        Cluster.ReplicaN cluster = ClusterConfig.ReplicaN (Config.Cluster c)
        \<and> Cluster.Nodes cluster =
            map (\<lambda>hostport. \<lparr>Node.Host = hostport\<rparr>) (ClusterConfig.Nodes (Config.Cluster c))
        \<and> length (Cluster.Nodes cluster) = length (ClusterConfig.Nodes (Config.Cluster c))
        \<and> (\<forall>i < length (ClusterConfig.Nodes (Config.Cluster c)).
              Node.Host (Cluster.Nodes cluster ! i) = ClusterConfig.Nodes (Config.Cluster c) ! i))"
proof (intro conjI impI)
  show "(\<exists>cluster. PilosaCluster e c = Inr cluster)
      \<longleftrightarrow> (BroadcasterType (Config.Cluster c) = ''gossip'' \<longrightarrow> Atoi (DefaultGossipPort e) \<noteq> None)"
    by (rule PilosaCluster_returns_iff)
next
  assume r: "PilosaCluster e c = Inr cluster"
  have fields: "Cluster.ReplicaN cluster = ClusterConfig.ReplicaN (Config.Cluster c)
      \<and> Cluster.Nodes cluster =
            map (\<lambda>hostport. \<lparr>Node.Host = hostport\<rparr>) (ClusterConfig.Nodes (Config.Cluster c))"
  proof (cases "BroadcasterType (Config.Cluster c) = ''gossip''")
    case True
    with r obtain gport where "Atoi (DefaultGossipPort e) = Some gport"
      by (cases "Atoi (DefaultGossipPort e)") (simp_all add: PilosaCluster_gossip_panic)
    from PilosaCluster_gossip [OF True this] r show ?thesis by auto
  next
    case False
    show ?thesis
    proof (cases "BroadcasterType (Config.Cluster c) = ''http''")
      case True
      from PilosaCluster_http [OF this, of e] r show ?thesis by auto
    next
      case nothttp: False
      from PilosaCluster_static [OF nothttp False, of e] r show ?thesis by auto
    qed
  qed
  from fields show "Cluster.ReplicaN cluster = ClusterConfig.ReplicaN (Config.Cluster c)" ..
  from fields show "Cluster.Nodes cluster =
            map (\<lambda>hostport. \<lparr>Node.Host = hostport\<rparr>) (ClusterConfig.Nodes (Config.Cluster c))" ..
  from fields show "length (Cluster.Nodes cluster) = length (ClusterConfig.Nodes (Config.Cluster c))"
    by simp
  from fields show "\<forall>i < length (ClusterConfig.Nodes (Config.Cluster c)).
              Node.Host (Cluster.Nodes cluster ! i) = ClusterConfig.Nodes (Config.Cluster c) ! i"
    by simp
qed

theorem PilosaCluster_from_config_witness:
  "PilosaCluster example_env (example_config ''static'') = Inr (example_cluster StaticNodeSet)
   \<and> Cluster.ReplicaN (example_cluster StaticNodeSet) = 2
   \<and> Cluster.Nodes (example_cluster StaticNodeSet)
       = [\<lparr>Node.Host = ''a:10101''\<rparr>, \<lparr>Node.Host = ''b:10101''\<rparr>, \<lparr>Node.Host = ''c:10101''\<rparr>]
   \<and> length (Cluster.Nodes (example_cluster StaticNodeSet)) = 3"
  using PilosaCluster_from_config [of example_env "example_config ''static''" "example_cluster StaticNodeSet"]
    PilosaCluster_example_static
  by (simp add: example_config_def)

text \<open>
  C10: for the \<open>"gossip"\<close> type PilosaCluster builds the gossip node set with the port
  Config.Cluster.Gossip.Port when that is not zero and the default gossip port (the number
  that the constant DefaultGossipPort spells) otherwise, and with the seed
  Config.Cluster.Gossip.Seed when that is not empty and the default host otherwise.
\<close>

theorem PilosaCluster_gossip_port_seed:
  assumes "BroadcasterType (Config.Cluster c) = ''gossip''"
    and "Atoi (DefaultGossipPort e) = Some gport"
  shows "\<exists>cluster. PilosaCluster e c = Inr cluster
     \<and> NodeSet cluster =
         NewGossipNodeSet (Config.Host c)
           (case net_SplitHostPort e (Config.Host c) of Some h \<Rightarrow> h | None \<Rightarrow> Config.Host c)
           (if Port (Gossip (Config.Cluster c)) \<noteq> 0 then Port (Gossip (Config.Cluster c)) else gport)
           (if Seed (Gossip (Config.Cluster c)) \<noteq> [] then Seed (Gossip (Config.Cluster c))
            else DefaultHost e)"
  using PilosaCluster_gossip [OF assms] by (simp add: NewGossipNodeSet_def)

theorem PilosaCluster_gossip_port_seed_witness:
  "(\<exists>cluster. PilosaCluster example_env (example_config ''gossip'') = Inr cluster
      \<and> NodeSet cluster =
          NewGossipNodeSet ''localhost:10101'' ''localhost'' 14000 ''localhost:10101'')
   \<and> (\<exists>cluster. PilosaCluster example_env
         ((example_config ''gossip'')\<lparr>Config.Cluster :=
            (Config.Cluster (example_config ''gossip''))\<lparr>Gossip := \<lparr>Port = 15000, Seed = ''seed:15000''\<rparr>\<rparr>\<rparr>)
           = Inr cluster
      \<and> NodeSet cluster =
          NewGossipNodeSet ''localhost:10101'' ''localhost'' 15000 ''seed:15000'')"
proof -
  have d: "DefaultHost example_env = ''localhost:10101''"
    by (simp add: example_env_def)
  show ?thesis
    using PilosaCluster_gossip_port_seed [of "example_config ''gossip''" example_env 14000]
      PilosaCluster_gossip_port_seed [of
        "(example_config ''gossip'')\<lparr>Config.Cluster :=
            (Config.Cluster (example_config ''gossip''))\<lparr>Gossip := \<lparr>Port = 15000, Seed = ''seed:15000''\<rparr>\<rparr>\<rparr>"
        example_env 14000]
      Atoi_example example_gossip_host d
    by (simp add: example_config_def)
qed

text \<open>
  C6: AssociateBroadcaster attaches the server's broadcaster to the cluster's node set
  exactly when the configured type is \<open>"gossip"\<close>. For \<open>"http"\<close> and
  \<open>"static"\<close> the server comes back as it was, field by field; with
  \<open>"gossip"\<close>, a gossip node set and a gossip broadcaster the node set gets the
  broadcaster attached and nothing else changes; any change at all means the type is
  \<open>"gossip"\<close>; and the server as PilosaBroadcaster and PilosaCluster wire it for
  \<open>"gossip"\<close> has these two variants, so the attachment takes place.
\<close>

theorem AssociateBroadcaster_gossip_only:
  "(BroadcasterType (Config.Cluster c) = ''http'' \<or> BroadcasterType (Config.Cluster c) = ''static''
      \<longrightarrow> AssociateBroadcaster s c = Inr s)
   \<and> (BroadcasterType (Config.Cluster c) = ''gossip''
        \<and> NodeSet (Server.Cluster s) = GossipNodeSet name gossipHost gossipPort gossipSeed old
        \<and> Broadcaster s = GossipBroadcaster
      \<longrightarrow> AssociateBroadcaster s c =
            Inr (s\<lparr>Server.Cluster := (Server.Cluster s)\<lparr>NodeSet :=
                   GossipNodeSet name gossipHost gossipPort gossipSeed (Some (Broadcaster s))\<rparr>\<rparr>))
   \<and> (AssociateBroadcaster s c = Inr s' \<and> s' \<noteq> s
      \<longrightarrow> BroadcasterType (Config.Cluster c) = ''gossip'')
   \<and> (BroadcasterType (Config.Cluster c) = ''gossip'' \<and> PilosaCluster e c = Inr cluster
      \<longrightarrow> (\<exists>name gossipHost gossipPort gossipSeed.
            NodeSet cluster = GossipNodeSet name gossipHost gossipPort gossipSeed None
            \<and> AssociateBroadcaster
                 (s\<lparr>Broadcaster := PilosaBroadcaster c s, Server.Cluster := cluster\<rparr>) c =
               Inr (s\<lparr>Broadcaster := PilosaBroadcaster c s,
                      Server.Cluster := cluster\<lparr>NodeSet :=
                        GossipNodeSet name gossipHost gossipPort gossipSeed
                          (Some (PilosaBroadcaster c s))\<rparr>\<rparr>)))"
proof (intro conjI impI)
  assume "BroadcasterType (Config.Cluster c) = ''http'' \<or> BroadcasterType (Config.Cluster c) = ''static''"
  then have "BroadcasterType (Config.Cluster c) \<noteq> ''gossip''" by auto
  then show "AssociateBroadcaster s c = Inr s" by (rule AssociateBroadcaster_not_gossip)
next
  assume "BroadcasterType (Config.Cluster c) = ''gossip''
        \<and> NodeSet (Server.Cluster s) = GossipNodeSet name gossipHost gossipPort gossipSeed old
        \<and> Broadcaster s = GossipBroadcaster"
  then show "AssociateBroadcaster s c =
            Inr (s\<lparr>Server.Cluster := (Server.Cluster s)\<lparr>NodeSet :=
                   GossipNodeSet name gossipHost gossipPort gossipSeed (Some (Broadcaster s))\<rparr>\<rparr>)"
    by (simp add: AssociateBroadcaster_def)
next
  assume a: "AssociateBroadcaster s c = Inr s' \<and> s' \<noteq> s"
  show "BroadcasterType (Config.Cluster c) = ''gossip''"
  proof (rule ccontr)
    assume "BroadcasterType (Config.Cluster c) \<noteq> ''gossip''"
    from AssociateBroadcaster_not_gossip [OF this, of s] a show False by simp
  qed
next
  assume a: "BroadcasterType (Config.Cluster c) = ''gossip'' \<and> PilosaCluster e c = Inr cluster"
  then have ty: "BroadcasterType (Config.Cluster c) = ''gossip''"
    and r: "PilosaCluster e c = Inr cluster" by simp_all
  from ty r obtain gport where "Atoi (DefaultGossipPort e) = Some gport"
    by (cases "Atoi (DefaultGossipPort e)") (simp_all add: PilosaCluster_gossip_panic)
  from PilosaCluster_gossip [OF ty this] r
  obtain name gossipHost gossipPort gossipSeed
    where ns: "NodeSet cluster = GossipNodeSet name gossipHost gossipPort gossipSeed None"
    by auto
  have pb: "PilosaBroadcaster c s = GossipBroadcaster"
    using ty by (simp add: PilosaBroadcaster_def NewGossipBroadcaster_def)
  have "AssociateBroadcaster
                 (s\<lparr>Broadcaster := PilosaBroadcaster c s, Server.Cluster := cluster\<rparr>) c =
               Inr (s\<lparr>Broadcaster := PilosaBroadcaster c s,
                      Server.Cluster := cluster\<lparr>NodeSet :=
                        GossipNodeSet name gossipHost gossipPort gossipSeed
                          (Some (PilosaBroadcaster c s))\<rparr>\<rparr>)"
    using ty ns pb by (simp add: AssociateBroadcaster_def)
  with ns show "\<exists>name gossipHost gossipPort gossipSeed.
            NodeSet cluster = GossipNodeSet name gossipHost gossipPort gossipSeed None
            \<and> AssociateBroadcaster
                 (s\<lparr>Broadcaster := PilosaBroadcaster c s, Server.Cluster := cluster\<rparr>) c =
               Inr (s\<lparr>Broadcaster := PilosaBroadcaster c s,
                      Server.Cluster := cluster\<lparr>NodeSet :=
                        GossipNodeSet name gossipHost gossipPort gossipSeed
                          (Some (PilosaBroadcaster c s))\<rparr>\<rparr>)"
    by blast
qed

theorem AssociateBroadcaster_gossip_only_witness:
  "AssociateBroadcaster example_server (example_config ''http'') = Inr example_server
   \<and> AssociateBroadcaster example_server (example_config ''static'') = Inr example_server
   \<and> AssociateBroadcaster
        (example_server\<lparr>Broadcaster := GossipBroadcaster,
           Server.Cluster := example_cluster (GossipNodeSet ''localhost:10101'' ''localhost'' 14000 ''localhost:10101'' None)\<rparr>)
        (example_config ''gossip'')
       = Inr (example_server\<lparr>Broadcaster := GossipBroadcaster,
           Server.Cluster := example_cluster (GossipNodeSet ''localhost:10101'' ''localhost'' 14000 ''localhost:10101''
                (Some GossipBroadcaster))\<rparr>)"
  using AssociateBroadcaster_gossip_only [of "example_config ''http''" example_server]
    AssociateBroadcaster_gossip_only [of "example_config ''static''" example_server]
    AssociateBroadcaster_gossip_only [of "example_config ''gossip''"
      "example_server\<lparr>Broadcaster := GossipBroadcaster,
           Server.Cluster := example_cluster (GossipNodeSet ''localhost:10101'' ''localhost'' 14000 ''localhost:10101'' None)\<rparr>"
      "''localhost:10101''" "''localhost''" 14000 "''localhost:10101''" None]
  by (simp add: example_config_def example_cluster_def)

section \<open>Claims about Command.Run\<close>

text \<open>
  C9: when Config.DataDir begins with \<open>~\<close> and the path separator and the HOME
  environment variable is empty, Command.Run returns the error "data directory not
  specified and no home dir available" before any server setup: the server (so its log
  output, index path, host, Broadcaster and Cluster) is as it was, and nothing has been
  printed.
\<close>

theorem Run_no_home_dir:
  assumes "HasPrefix (DataDir (Config m)) (''~'' @ [filepath_Separator e])"
    and "Getenv_HOME e = []"
  shows "Run e m = (Returns (Some (Error ''data directory not specified and no home dir available'')),
                    m\<lparr>Started := True\<rparr>)
         \<and> LogOutput (Server (snd (Run e m))) = LogOutput (Server m)
         \<and> Path (Index (Server (snd (Run e m)))) = Path (Index (Server m))
         \<and> Server.Host (Server (snd (Run e m))) = Server.Host (Server m)
         \<and> Broadcaster (Server (snd (Run e m))) = Broadcaster (Server m)
         \<and> Server.Cluster (Server (snd (Run e m))) = Server.Cluster (Server m)
         \<and> Server (snd (Run e m)) = Server m
         \<and> Output (snd (Run e m)) = Output m"
  using Run_resolveDataDir_Inl [OF resolveDataDir_no_home [OF assms]] by simp

theorem Run_no_home_dir_witness:
  "HasPrefix ''~/.pilosa'' ''~/''
   \<and> fst (Run (example_env\<lparr>Getenv_HOME := []\<rparr>)
              (example_command ((example_config ''static'')\<lparr>DataDir := ''~/.pilosa''\<rparr>)))
       = Returns (Some (Error ''data directory not specified and no home dir available''))
   \<and> Server (snd (Run (example_env\<lparr>Getenv_HOME := []\<rparr>)
              (example_command ((example_config ''static'')\<lparr>DataDir := ''~/.pilosa''\<rparr>))))
       = example_server"
proof -
  have p: "HasPrefix ''~/.pilosa'' ''~/''"
    by (simp add: HasPrefix_def)
  show ?thesis
    using p Run_no_home_dir [of
        "example_command ((example_config ''static'')\<lparr>DataDir := ''~/.pilosa''\<rparr>)"
        "example_env\<lparr>Getenv_HOME := []\<rparr>"]
    by (simp add: example_env_def example_command_def)
qed

text \<open>
  C4: for every host that contains \<open>"://"\<close> and does not begin with
  \<open>"http://"\<close> normalizeHost returns an error, and Command.Run then ends with an
  error and with the server's Broadcaster and Cluster as they were; when the data directory
  and the log file raise no error before, the error it returns is the one of
  normalizeHost. For a host that begins with \<open>"http://"\<close> the prefix is removed and
  there is no error.
\<close>

theorem normalizeHost_scheme_error:
  "(Contains host ''://'' \<and> \<not> HasPrefix host ''http://'' \<longrightarrow>
      normalizeHost host =
        ([], Some (Error (''invalid scheme or host: '' @ [apostrophe] @ host @ [apostrophe]
                          @ ''. use the format [http://]<host>:<port>''))))
   \<and> (HasPrefix host ''http://'' \<longrightarrow> normalizeHost host = (drop 7 host, None))
   \<and> (Contains (Config.Host (Config m)) ''://'' \<and> \<not> HasPrefix (Config.Host (Config m)) ''http://'' \<longrightarrow>
        (\<exists>err. fst (Run e m) = Returns (Some err))
        \<and> Broadcaster (Server (snd (Run e m))) = Broadcaster (Server m)
        \<and> Server.Cluster (Server (snd (Run e m))) = Server.Cluster (Server m)
        \<and> (\<not> (HasPrefix (DataDir (Config m)) (''~'' @ [filepath_Separator e]) \<and> Getenv_HOME e = [])
             \<and> (LogPath (Config m) = [] \<or> os_OpenFile e (LogPath (Config m)) = None)
            \<longrightarrow> fst (Run e m) = Returns (snd (normalizeHost (Config.Host (Config m))))))"
proof (intro conjI impI)
  assume "Contains host ''://'' \<and> \<not> HasPrefix host ''http://''"
  with Contains_scheme_imp_colon [of host]
  show "normalizeHost host =
        ([], Some (Error (''invalid scheme or host: '' @ [apostrophe] @ host @ [apostrophe]
                          @ ''. use the format [http://]<host>:<port>'')))"
    by (simp add: normalizeHost_def)
next
  assume "HasPrefix host ''http://''"
  with HasPrefix_http_imp_scheme [of host] Contains_scheme_imp_colon [of host]
  show "normalizeHost host = (drop 7 host, None)"
    by (simp add: normalizeHost_def)
next
  assume bad: "Contains (Config.Host (Config m)) ''://'' \<and> \<not> HasPrefix (Config.Host (Config m)) ''http://''"
  with Contains_scheme_imp_colon [of "Config.Host (Config m)"]
  have err: "snd (normalizeHost (Config.Host (Config m))) \<noteq> None"
    by (simp add: normalizeHost_def)
  note keep = Run_early_return_keeps_wiring [OF err, of e]
  from keep show "\<exists>err. fst (Run e m) = Returns (Some err)" by simp
  from keep show "Broadcaster (Server (snd (Run e m))) = Broadcaster (Server m)" by simp
  from keep show "Server.Cluster (Server (snd (Run e m))) = Server.Cluster (Server m)" by simp
  assume ok: "\<not> (HasPrefix (DataDir (Config m)) (''~'' @ [filepath_Separator e]) \<and> Getenv_HOME e = [])
             \<and> (LogPath (Config m) = [] \<or> os_OpenFile e (LogPath (Config m)) = None)"
  from err obtain h er where nh: "normalizeHost (Config.Host (Config m)) = (h, Some er)"
    by (cases "normalizeHost (Config.Host (Config m))") auto
  from ok have nohome: "\<not> (HasPrefix (DataDir (Config m)) (''~'' @ [filepath_Separator e]) \<and> Getenv_HOME e = [])"
    and logok: "LogPath (Config m) = [] \<or> os_OpenFile e (LogPath (Config m)) = None"
    by simp_all
  from Run_host_error [OF nohome logok nh] nh
  show "fst (Run e m) = Returns (snd (normalizeHost (Config.Host (Config m))))"
    by simp
qed

theorem normalizeHost_scheme_error_witness:
  "normalizeHost ''ftp://localhost:10101'' =
     ([], Some (Error (''invalid scheme or host: '' @ [apostrophe] @ ''ftp://localhost:10101''
                       @ [apostrophe] @ ''. use the format [http://]<host>:<port>'')))
   \<and> normalizeHost ''http://localhost:10101'' = (''localhost:10101'', None)
   \<and> fst (Run example_env
             (example_command ((example_config ''static'')\<lparr>Config.Host := ''ftp://localhost:10101''\<rparr>))) =
       Returns (Some (Error (''invalid scheme or host: '' @ [apostrophe] @ ''ftp://localhost:10101''
                       @ [apostrophe] @ ''. use the format [http://]<host>:<port>'')))
   \<and> Broadcaster (Server (snd (Run example_env
             (example_command ((example_config ''static'')\<lparr>Config.Host := ''ftp://localhost:10101''\<rparr>)))))
       = NopBroadcaster
   \<and> Server.Cluster (Server (snd (Run example_env
             (example_command ((example_config ''static'')\<lparr>Config.Host := ''ftp://localhost:10101''\<rparr>)))))
       = NewCluster"
proof -
  define ftp where "ftp = ''ftp://localhost:10101''"
  define m where "m = example_command ((example_config ''static'')\<lparr>Config.Host := ftp\<rparr>)"
  have bad: "Contains ftp ''://'' \<and> \<not> HasPrefix ftp ''http://''"
    unfolding ftp_def by (rule example_ftp_host)
  have host: "Config.Host (Config m) = ftp"
    by (simp add: m_def example_command_fields)
  have http: "HasPrefix ''http://localhost:10101'' ''http://''"
    by (simp add: HasPrefix_def)
  have srv: "Broadcaster (Server m) = NopBroadcaster" "Server.Cluster (Server m) = NewCluster"
    by (simp_all add: m_def example_command_fields example_server_def)
  have ok: "\<not> (HasPrefix (DataDir (Config m)) (''~'' @ [filepath_Separator example_env])
                \<and> Getenv_HOME example_env = [])
            \<and> (LogPath (Config m) = [] \<or> os_OpenFile example_env (LogPath (Config m)) = None)"
    unfolding m_def by (rule example_ok) (simp add: example_config_def)
  have bad': "Contains (Config.Host (Config m)) ''://''
              \<and> \<not> HasPrefix (Config.Host (Config m)) ''http://''"
    unfolding host by (rule bad)
  note t = normalizeHost_scheme_error [of ftp m example_env]
  have 1: "normalizeHost ftp =
      ([], Some (Error (''invalid scheme or host: '' @ [apostrophe] @ ftp @ [apostrophe]
                        @ ''. use the format [http://]<host>:<port>'')))"
    using t [THEN conjunct1] bad by (rule mp)
  note r = t [THEN conjunct2, THEN conjunct2, THEN mp, OF bad']
  have "fst (Run example_env m) = Returns (snd (normalizeHost (Config.Host (Config m))))"
    using r [THEN conjunct2, THEN conjunct2, THEN conjunct2] ok by (rule mp)
  with 1 host have 2: "fst (Run example_env m) =
      Returns (Some (Error (''invalid scheme or host: '' @ [apostrophe] @ ftp @ [apostrophe]
                        @ ''. use the format [http://]<host>:<port>'')))"
    by simp
  have 3: "Broadcaster (Server (snd (Run example_env m))) = NopBroadcaster"
    using r [THEN conjunct2, THEN conjunct1] srv(1) by simp
  have 4: "Server.Cluster (Server (snd (Run example_env m))) = NewCluster"
    using r [THEN conjunct2, THEN conjunct2, THEN conjunct1] srv(2) by simp
  have 5: "normalizeHost ''http://localhost:10101'' = (''localhost:10101'', None)"
    using normalizeHost_scheme_error
      [of "''http://localhost:10101''" m example_env, THEN conjunct2, THEN conjunct1, THEN mp, OF http]
    by simp
  from 1 2 3 4 5 show ?thesis
    unfolding m_def ftp_def by simp
qed

text \<open>
  C7: every error of the start-up wiring in Command.Run comes back to the caller as a
  non-nil error with its message: the missing home directory, the error of opening the
  log file, the error of normalizeHost, and the error of the server's Open wrapped as
  \<open>server.Open: ...\<close> (Open being reached with the normalised host, the chosen
  broadcaster and the configured cluster). \<open>main\<close> prints the error it gets and
  exits with status 1.
\<close>

theorem Run_errors_propagate:
  "(HasPrefix (DataDir (Config m)) (''~'' @ [filepath_Separator e]) \<and> Getenv_HOME e = [] \<longrightarrow>
      fst (Run e m) = Returns (Some (Error ''data directory not specified and no home dir available'')))
   \<and> (\<not> (HasPrefix (DataDir (Config m)) (''~'' @ [filepath_Separator e]) \<and> Getenv_HOME e = [])
        \<and> LogPath (Config m) \<noteq> [] \<and> os_OpenFile e (LogPath (Config m)) = Some err \<longrightarrow>
      fst (Run e m) = Returns (Some err))
   \<and> (\<not> (HasPrefix (DataDir (Config m)) (''~'' @ [filepath_Separator e]) \<and> Getenv_HOME e = [])
        \<and> (LogPath (Config m) = [] \<or> os_OpenFile e (LogPath (Config m)) = None)
        \<and> normalizeHost (Config.Host (Config m)) = (h, Some err) \<longrightarrow>
      fst (Run e m) = Returns (Some err))
   \<and> (\<not> (HasPrefix (DataDir (Config m)) (''~'' @ [filepath_Separator e]) \<and> Getenv_HOME e = [])
        \<and> (LogPath (Config m) = [] \<or> os_OpenFile e (LogPath (Config m)) = None)
        \<and> normalizeHost (Config.Host (Config m)) = (h, None)
        \<and> PilosaCluster e (Config m) = Inr cluster \<longrightarrow>
      (\<exists>m3 :: Command.
          Server.Host (Server m3) = h
          \<and> Broadcaster (Server m3) = PilosaBroadcaster (Config m) (Server m)
          \<and> Cluster.ReplicaN (Server.Cluster (Server m3)) = Cluster.ReplicaN cluster
          \<and> Cluster.Nodes (Server.Cluster (Server m3)) = Cluster.Nodes cluster
          \<and> (fst (Server_Open e (Server m3)) = Some err \<longrightarrow>
               fst (Run e m) = Returns (Some (Error (''server.Open: '' @ message err))))))
   \<and> main (Some err) = ([message err @ [newline]], 1)"
proof (intro conjI impI)
  assume "HasPrefix (DataDir (Config m)) (''~'' @ [filepath_Separator e]) \<and> Getenv_HOME e = []"
  then have "resolveDataDir e m = Inl (Error ''data directory not specified and no home dir available'')"
    by (simp add: resolveDataDir_no_home)
  from Run_resolveDataDir_Inl [OF this]
  show "fst (Run e m) = Returns (Some (Error ''data directory not specified and no home dir available''))"
    by simp
next
  assume a: "\<not> (HasPrefix (DataDir (Config m)) (''~'' @ [filepath_Separator e]) \<and> Getenv_HOME e = [])
        \<and> LogPath (Config m) \<noteq> [] \<and> os_OpenFile e (LogPath (Config m)) = Some err"
  then have nohome: "\<not> (HasPrefix (DataDir (Config m)) (''~'' @ [filepath_Separator e]) \<and> Getenv_HOME e = [])"
    by simp
  from resolveDataDir_ok [OF nohome] obtain m1 where m1: "resolveDataDir e m = Inr m1" ..
  note f1 = resolveDataDir_frame [OF m1]
  from a f1 have "LogPath (Config m1) \<noteq> []" "os_OpenFile e (LogPath (Config m1)) = Some err"
    by simp_all
  from Run_setupLogging_Inl [OF m1 setupLogging_fails [OF this]]
  show "fst (Run e m) = Returns (Some err)" by simp
next
  assume a: "\<not> (HasPrefix (DataDir (Config m)) (''~'' @ [filepath_Separator e]) \<and> Getenv_HOME e = [])
        \<and> (LogPath (Config m) = [] \<or> os_OpenFile e (LogPath (Config m)) = None)
        \<and> normalizeHost (Config.Host (Config m)) = (h, Some err)"
  then have nohome: "\<not> (HasPrefix (DataDir (Config m)) (''~'' @ [filepath_Separator e]) \<and> Getenv_HOME e = [])"
    and logok: "LogPath (Config m) = [] \<or> os_OpenFile e (LogPath (Config m)) = None"
    and host: "normalizeHost (Config.Host (Config m)) = (h, Some err)"
    by simp_all
  from Run_host_error [OF nohome logok host]
  show "fst (Run e m) = Returns (Some err)" .
next
  assume a: "\<not> (HasPrefix (DataDir (Config m)) (''~'' @ [filepath_Separator e]) \<and> Getenv_HOME e = [])
        \<and> (LogPath (Config m) = [] \<or> os_OpenFile e (LogPath (Config m)) = None)
        \<and> normalizeHost (Config.Host (Config m)) = (h, None)
        \<and> PilosaCluster e (Config m) = Inr cluster"
  then have nohome: "\<not> (HasPrefix (DataDir (Config m)) (''~'' @ [filepath_Separator e]) \<and> Getenv_HOME e = [])"
    and logok: "LogPath (Config m) = [] \<or> os_OpenFile e (LogPath (Config m)) = None"
    and host: "normalizeHost (Config.Host (Config m)) = (h, None)"
    and cl: "PilosaCluster e (Config m) = Inr cluster"
    by simp_all
  show "\<exists>m3 :: Command.
          Server.Host (Server m3) = h
          \<and> Broadcaster (Server m3) = PilosaBroadcaster (Config m) (Server m)
          \<and> Cluster.ReplicaN (Server.Cluster (Server m3)) = Cluster.ReplicaN cluster
          \<and> Cluster.Nodes (Server.Cluster (Server m3)) = Cluster.Nodes cluster
          \<and> (fst (Server_Open e (Server m3)) = Some err \<longrightarrow>
               fst (Run e m) = Returns (Some (Error (''server.Open: '' @ message err))))"
  proof (rule Run_ends_with_Open [OF nohome logok host cl])
    fix m3 :: Command
    assume "Server.Host (Server m3) = h"
      and "Broadcaster (Server m3) = PilosaBroadcaster (Config m) (Server m)"
      and "Cluster.ReplicaN (Server.Cluster (Server m3)) = Cluster.ReplicaN cluster"
      and "Cluster.Nodes (Server.Cluster (Server m3)) = Cluster.Nodes cluster"
      and "\<And>err. fst (Server_Open e (Server m3)) = Some err
             \<Longrightarrow> fst (Run e m) = Returns (Some (Error (''server.Open: '' @ message err)))"
    then show ?thesis
      by (intro exI [of _ m3] conjI impI)
  qed
next
  show "main (Some err) = ([message err @ [newline]], 1)"
    by (simp add: main_def)
qed

theorem Run_errors_propagate_witness:
  "fst (Run (example_env\<lparr>Getenv_HOME := []\<rparr>)
          (example_command ((example_config ''static'')\<lparr>DataDir := ''~/.pilosa''\<rparr>)))
     = Returns (Some (Error ''data directory not specified and no home dir available''))
   \<and> fst (Run example_env
          (example_command ((example_config ''static'')\<lparr>LogPath := ''/forbidden/pilosa.log''\<rparr>)))
     = Returns (Some (Error ''open /forbidden/pilosa.log: permission denied''))
   \<and> fst (Run example_env
          (example_command ((example_config ''static'')\<lparr>Config.Host := ''ftp://localhost:10101''\<rparr>)))
     = Returns (snd (normalizeHost ''ftp://localhost:10101''))
   \<and> snd (normalizeHost ''ftp://localhost:10101'') \<noteq> None
   \<and> fst (Run example_env
          (example_command ((example_config ''static'')\<lparr>Config.Host := ''localhost:1''\<rparr>)))
     = Returns (Some (Error ''server.Open: listen tcp localhost:1: permission denied''))
   \<and> main (Some (Error ''server.Open: listen tcp localhost:1: permission denied''))
     = ([''server.Open: listen tcp localhost:1: permission denied'' @ [newline]], 1)"
proof -
  \<comment> \<open>no home directory\<close>
  define ma where "ma = example_command ((example_config ''static'')\<lparr>DataDir := ''~/.pilosa''\<rparr>)"
  define ea where "ea = example_env\<lparr>Getenv_HOME := []\<rparr>"
  have "HasPrefix (DataDir (Config ma)) (''~'' @ [filepath_Separator ea]) \<and> Getenv_HOME ea = []"
    by (simp add: ma_def ea_def example_command_fields example_env_def HasPrefix_def)
  with Run_errors_propagate [of ma ea, THEN conjunct1]
  have a: "fst (Run ea ma)
             = Returns (Some (Error ''data directory not specified and no home dir available''))"
    by (rule mp)
  \<comment> \<open>the log file cannot be opened\<close>
  define mb where "mb = example_command ((example_config ''static'')\<lparr>LogPath := ''/forbidden/pilosa.log''\<rparr>)"
  define errb where "errb = Error ''open /forbidden/pilosa.log: permission denied''"
  have "\<not> (HasPrefix (DataDir (Config mb)) (''~'' @ [filepath_Separator example_env])
            \<and> Getenv_HOME example_env = [])
        \<and> LogPath (Config mb) \<noteq> [] \<and> os_OpenFile example_env (LogPath (Config mb)) = Some errb"
    using example_home example_OpenFile
    by (simp add: mb_def errb_def example_command_fields)
  with Run_errors_propagate [of mb example_env errb, THEN conjunct2, THEN conjunct1]
  have b: "fst (Run example_env mb) = Returns (Some errb)"
    by (rule mp)
  \<comment> \<open>the host has a scheme other than http\<close>
  define ftp where "ftp = ''ftp://localhost:10101''"
  define mc where "mc = example_command ((example_config ''static'')\<lparr>Config.Host := ftp\<rparr>)"
  have nh: "snd (normalizeHost ftp) \<noteq> None"
    unfolding ftp_def by (rule example_ftp_error)
  then obtain hc errc where hc: "normalizeHost ftp = (hc, Some errc)"
    by (cases "normalizeHost ftp") auto
  have okc: "\<not> (HasPrefix (DataDir (Config mc)) (''~'' @ [filepath_Separator example_env])
                \<and> Getenv_HOME example_env = [])
            \<and> (LogPath (Config mc) = [] \<or> os_OpenFile example_env (LogPath (Config mc)) = None)"
    unfolding mc_def by (rule example_ok) (simp add: example_config_def)
  have "normalizeHost (Config.Host (Config mc)) = (hc, Some errc)"
    using hc by (simp add: mc_def example_command_fields)
  with okc have "\<not> (HasPrefix (DataDir (Config mc)) (''~'' @ [filepath_Separator example_env])
                \<and> Getenv_HOME example_env = [])
            \<and> (LogPath (Config mc) = [] \<or> os_OpenFile example_env (LogPath (Config mc)) = None)
            \<and> normalizeHost (Config.Host (Config mc)) = (hc, Some errc)"
    by simp
  with Run_errors_propagate [of mc example_env errc hc,
      THEN conjunct2, THEN conjunct2, THEN conjunct1]
  have "fst (Run example_env mc) = Returns (Some errc)"
    by (rule mp)
  with hc have c: "fst (Run example_env mc) = Returns (snd (normalizeHost ftp))"
    by simp
  \<comment> \<open>the server cannot listen\<close>
  define md where "md = example_command ((example_config ''static'')\<lparr>Config.Host := ''localhost:1''\<rparr>)"
  define errd where "errd = Error ''listen tcp localhost:1: permission denied''"
  have okd: "\<not> (HasPrefix (DataDir (Config md)) (''~'' @ [filepath_Separator example_env])
                \<and> Getenv_HOME example_env = [])
            \<and> (LogPath (Config md) = [] \<or> os_OpenFile example_env (LogPath (Config md)) = None)"
    unfolding md_def by (rule example_ok) (simp add: example_config_def)
  have "normalizeHost (Config.Host (Config md)) = (''localhost:1'', None)"
    using example_normalizeHost(2) by (simp add: md_def example_command_fields)
  moreover have "PilosaCluster example_env (Config md) = Inr (example_cluster StaticNodeSet)"
    using PilosaCluster_example_not_gossip(1) [of "''static''" "''localhost:1''"]
    by (simp add: md_def example_command_fields)
  ultimately have "\<not> (HasPrefix (DataDir (Config md)) (''~'' @ [filepath_Separator example_env])
                \<and> Getenv_HOME example_env = [])
            \<and> (LogPath (Config md) = [] \<or> os_OpenFile example_env (LogPath (Config md)) = None)
            \<and> normalizeHost (Config.Host (Config md)) = (''localhost:1'', None)
            \<and> PilosaCluster example_env (Config md) = Inr (example_cluster StaticNodeSet)"
    using okd by simp
  from Run_errors_propagate [of md example_env errd "''localhost:1''" "example_cluster StaticNodeSet",
      THEN conjunct2, THEN conjunct2, THEN conjunct2, THEN conjunct1, THEN mp, OF this]
  obtain m3 :: Command
    where m3: "Server.Host (Server m3) = ''localhost:1''
          \<and> Broadcaster (Server m3) = PilosaBroadcaster (Config md) (Server md)
          \<and> Cluster.ReplicaN (Server.Cluster (Server m3)) = Cluster.ReplicaN (example_cluster StaticNodeSet)
          \<and> Cluster.Nodes (Server.Cluster (Server m3)) = Cluster.Nodes (example_cluster StaticNodeSet)
          \<and> (fst (Server_Open example_env (Server m3)) = Some errd \<longrightarrow>
               fst (Run example_env md) = Returns (Some (Error (''server.Open: '' @ message errd))))" ..
  have "fst (Server_Open example_env (Server m3)) = Some errd"
    unfolding errd_def using m3 [THEN conjunct1] by (rule example_Server_Open(2))
  with m3 [THEN conjunct2, THEN conjunct2, THEN conjunct2, THEN conjunct2]
  have "fst (Run example_env md) = Returns (Some (Error (''server.Open: '' @ message errd)))"
    by (rule mp)
  then have d: "fst (Run example_env md)
      = Returns (Some (Error ''server.Open: listen tcp localhost:1: permission denied''))"
    by (simp add: errd_def)
  \<comment> \<open>the entry point\<close>
  have e: "main (Some (Error ''server.Open: listen tcp localhost:1: permission denied''))
     = ([''server.Open: listen tcp localhost:1: permission denied'' @ [newline]], 1)"
    using Run_errors_propagate
      [of md example_env "Error ''server.Open: listen tcp localhost:1: permission denied''",
       THEN conjunct2, THEN conjunct2, THEN conjunct2, THEN conjunct2]
    by simp
  from a b c nh d e show ?thesis
    unfolding ma_def ea_def mb_def errb_def mc_def ftp_def md_def
    by (intro conjI)
qed

section \<open>An unrecognised broadcaster type\<close>




end
